theory Spec2Isabelle
  imports Main "HOL-Library.Sublist"
begin

section \<open>Status codes and statuses\<close>

text \<open>
  The handler in \<^verbatim>\<open>courier/handlers/py_call.cc\<close> reports its outcome as an
  \<^verbatim>\<open>absl::StatusOr<courier::CallResult>\<close>. The status code enumeration is the one of
  \<^verbatim>\<open>absl::StatusCode\<close>; a status is a code with a message, built in the source by
  \<^verbatim>\<open>absl::Status(code, message)\<close>.
\<close>

datatype StatusCode =
    kOk | kCancelled | kUnknown | kInvalidArgument | kDeadlineExceeded | kNotFound
  | kAlreadyExists | kPermissionDenied | kResourceExhausted | kFailedPrecondition
  | kAborted | kOutOfRange | kUnimplemented | kInternal | kUnavailable | kDataLoss
  | kUnauthenticated

datatype Status = Status (code: StatusCode) (message: string)

definition InternalError :: "string \<Rightarrow> Status" where
  "InternalError msg = Status kInternal msg"

definition OkStatus :: Status where
  "OkStatus = Status kOk []"

section \<open>The hosted runtime\<close>

text \<open>
  The exception classes that \<^verbatim>\<open>PythonExceptionErrorCode\<close> tests the pending exception
  against, under the names of the source.
\<close>

datatype PyExc =
    PyExc_ValueError | PyExc_TypeError | PyExc_StopIteration | PyExc_MemoryError
  | PyExc_NotImplementedError | PyExc_KeyboardInterrupt | PyExc_SystemError
  | PyExc_SyntaxError | PyExc_LookupError

type_synonym PyObject = nat

text \<open>
  The interpreter state that may only be touched while holding the GIL. The error
  indicator \<open>curexc\<close> is \<open>None\<close> when no exception is pending; a pending exception is
  described by the set of the classes above that its type derives from (a class of the
  program under call may derive from several of them, or from none). \<open>refcnt\<close> holds the
  reference counts, \<open>objects\<close> everything else. \<^verbatim>\<open>PyErr_ExceptionMatches\<close> must only be
  asked while an exception is pending; the mapper asks it only then, and the model
  answers no otherwise.
\<close>

record 'u PyInterp =
  curexc :: "PyExc set option"
  refcnt :: "PyObject \<Rightarrow> nat"
  objects :: 'u

definition PyErr_Occurred :: "'u PyInterp \<Rightarrow> bool" where
  "PyErr_Occurred i = (curexc i \<noteq> None)"

definition PyErr_ExceptionMatches :: "PyExc \<Rightarrow> 'u PyInterp \<Rightarrow> bool" where
  "PyErr_ExceptionMatches exc i = (case curexc i of None \<Rightarrow> False | Some cs \<Rightarrow> exc \<in> cs)"

definition Py_INCREF :: "PyObject \<Rightarrow> 'u PyInterp \<Rightarrow> 'u PyInterp" where
  "Py_INCREF ob i = i\<lparr>refcnt := (refcnt i)(ob := Suc (refcnt i ob))\<rparr>"

definition Py_DECREF :: "PyObject \<Rightarrow> 'u PyInterp \<Rightarrow> 'u PyInterp" where
  "Py_DECREF ob i = i\<lparr>refcnt := (refcnt i)(ob := refcnt i ob - 1)\<rparr>"

section \<open>The error mapper\<close>

text \<open>\<^verbatim>\<open>PythonExceptionErrorCode\<close>, lines 39 to 67 of \<^verbatim>\<open>py_call.cc\<close>, test for test.\<close>

definition PythonExceptionErrorCode :: "'u PyInterp \<Rightarrow> StatusCode" where
  "PythonExceptionErrorCode i =
    (if \<not> PyErr_Occurred i then kUnknown
     else if PyErr_ExceptionMatches PyExc_ValueError i \<or>
             PyErr_ExceptionMatches PyExc_TypeError i then kInvalidArgument
     else if PyErr_ExceptionMatches PyExc_StopIteration i then kOutOfRange
     else if PyErr_ExceptionMatches PyExc_MemoryError i then kResourceExhausted
     else if PyErr_ExceptionMatches PyExc_NotImplementedError i then kUnimplemented
     else if PyErr_ExceptionMatches PyExc_KeyboardInterrupt i then kAborted
     else if PyErr_ExceptionMatches PyExc_SystemError i \<or>
             PyErr_ExceptionMatches PyExc_SyntaxError i then kInternal
     else if PyErr_ExceptionMatches PyExc_LookupError i then kNotFound
     else kUnknown)"

text \<open>
  The mapper as the specification words it: an ordered table of categories, each with
  its status code, read from the top; the first category that the pending failure
  belongs to decides, and \<open>Unknown\<close> is the default, also when nothing is pending.
\<close>

definition category_table :: "(PyExc list \<times> StatusCode) list" where
  "category_table =
    [([PyExc_ValueError, PyExc_TypeError], kInvalidArgument),
     ([PyExc_StopIteration], kOutOfRange),
     ([PyExc_MemoryError], kResourceExhausted),
     ([PyExc_NotImplementedError], kUnimplemented),
     ([PyExc_KeyboardInterrupt], kAborted),
     ([PyExc_SystemError, PyExc_SyntaxError], kInternal),
     ([PyExc_LookupError], kNotFound)]"

fun first_match :: "(PyExc list \<times> StatusCode) list \<Rightarrow> PyExc set \<Rightarrow> StatusCode" where
  "first_match [] cs = kUnknown"
| "first_match ((cat, c) # rest) cs =
     (if list_ex (\<lambda>exc. exc \<in> cs) cat then c else first_match rest cs)"

definition error_mapper_spec :: "PyExc set option \<Rightarrow> StatusCode" where
  "error_mapper_spec pending =
    (case pending of None \<Rightarrow> kUnknown | Some cs \<Rightarrow> first_match category_table cs)"

section \<open>Wire messages\<close>

text \<open>
  Modelled from the spec: the payload of the wire messages (\<^verbatim>\<open>serialization.pb.h\<close> is
  generated and not among the sources). A payload is a tensor (dtype, shape, raw bytes,
  optional reference index) or an opaque serialized object.
\<close>

datatype Payload =
    Tensor (dtype: nat) (shape: "nat list") (raw: string) (reference: "nat option")
  | Object (serialized: string)

text \<open>
  Modelled from the spec: the message \<^verbatim>\<open>CallArguments\<close> (declared in the same missing
  header). \<open>args\<close> is the ordered sequence that \<^verbatim>\<open>arguments.args(i)\<close> indexes. \<open>kwargs\<close>
  is the keyword mapping, held as the list of its entries in the order in which they
  were received, which is the order in which the loop
  \<^verbatim>\<open>for (const auto& pair : arguments.kwargs())\<close> visits them.
\<close>

record CallArguments =
  args :: "Payload list"
  kwargs :: "(string \<times> Payload) list"

text \<open>
  Modelled from the spec: the message \<^verbatim>\<open>CallResult\<close> (declared in the same missing
  header), with the one field that \<^verbatim>\<open>result.mutable_result()\<close> fills.
\<close>

record CallResult =
  result :: Payload

section \<open>Threads, the GIL and the event log\<close>

text \<open>
  What a thread does to the hosted runtime is recorded in an event log: each operation
  with the GIL depth of the thread at the moment it ran, and each construction and
  destruction of a scoped GIL object.
\<close>

datatype Op =
    CreateTensorLookupOp
  | DeserializeOp Payload
  | CallOp PyObject
  | SerializeOp PyObject
  | ErrorCodeOp
  | FetchExceptionOp
  | IncRefOp PyObject
  | DecRefOp PyObject

datatype Event =
    GilAcquire
  | GilRelease
  | GilSuspend
  | GilResume
  | Ran Op nat

text \<open>
  A thread of execution: \<open>gil\<close> counts how many times the thread holds the GIL (0: it
  does not hold it), \<open>interp\<close> is the interpreter state, \<open>events\<close> the log.
\<close>

record 'u Thread =
  gil :: nat
  interp :: "'u PyInterp"
  events :: "Event list"

definition emit :: "Event \<Rightarrow> 'u Thread \<Rightarrow> 'u Thread" where
  "emit e t = t\<lparr>events := events t @ [e]\<rparr>"

text \<open>An operation on the interpreter state, run by a thread and logged.\<close>

definition run :: "Op \<Rightarrow> ('u PyInterp \<Rightarrow> 'a \<times> 'u PyInterp) \<Rightarrow> 'u Thread \<Rightarrow> 'a \<times> 'u Thread" where
  "run op f t =
    (case f (interp t) of (r, i') \<Rightarrow> (r, emit (Ran op (gil t)) (t\<lparr>interp := i'\<rparr>)))"

text \<open>
  The scoped GIL objects of pybind11, one function for the constructor and one for the
  destructor. \<^verbatim>\<open>gil_scoped_acquire\<close> takes the GIL (once more, when the thread already
  holds it) and gives it back at the end of its scope. \<^verbatim>\<open>gil_scoped_release\<close> gives up
  the GIL whatever the depth, remembers the depth, and restores it at the end of its
  scope.
\<close>

definition gil_scoped_acquire :: "'u Thread \<Rightarrow> 'u Thread" where
  "gil_scoped_acquire t = emit GilAcquire (t\<lparr>gil := Suc (gil t)\<rparr>)"

definition gil_scoped_acquire_end :: "'u Thread \<Rightarrow> 'u Thread" where
  "gil_scoped_acquire_end t = emit GilRelease (t\<lparr>gil := gil t - 1\<rparr>)"

definition gil_scoped_release :: "'u Thread \<Rightarrow> nat \<times> 'u Thread" where
  "gil_scoped_release t = (gil t, emit GilSuspend (t\<lparr>gil := 0\<rparr>))"

definition gil_scoped_release_end :: "nat \<Rightarrow> 'u Thread \<Rightarrow> 'u Thread" where
  "gil_scoped_release_end saved t = emit GilResume (t\<lparr>gil := saved\<rparr>)"

section \<open>The hosted-runtime call handler\<close>

text \<open>
  The functions that \<^verbatim>\<open>PyCallHandler::Call\<close> calls and that are declared outside the
  sources (\<^verbatim>\<open>tensor_conversion.h\<close>, \<^verbatim>\<open>py_serialize.h\<close>, \<^verbatim>\<open>py_utils.h\<close>, the CPython
  API) are parameters of the model. \<^verbatim>\<open>CreateTensorLookup\<close> depends on the arguments only:
  it converts tensor protos without the interpreter, as the comment at lines 83 and 84
  says. The others read and change the interpreter state. \<^verbatim>\<open>PyObject_Call\<close> returns
  \<open>None\<close> for the null pointer; \<^verbatim>\<open>FetchPendingException\<close> returns the text when it
  returns true and \<open>None\<close> when it returns false.
\<close>

record ('u, 'l) Externals =
  CreateTensorLookup :: "CallArguments \<Rightarrow> Status + 'l"
  DeserializePyObject :: "Payload \<Rightarrow> 'l \<Rightarrow> 'u PyInterp \<Rightarrow> (Status + PyObject) \<times> 'u PyInterp"
  PyObject_Call ::
    "PyObject \<Rightarrow> PyObject list \<Rightarrow> (string \<rightharpoonup> PyObject) \<Rightarrow> 'u PyInterp \<Rightarrow>
     PyObject option \<times> 'u PyInterp"
  SerializePyObject :: "PyObject \<Rightarrow> 'u PyInterp \<Rightarrow> (Status + Payload) \<times> 'u PyInterp"
  FetchPendingException :: "'u PyInterp \<Rightarrow> string option \<times> 'u PyInterp"

text \<open>
  The handler object: its one field (\<^verbatim>\<open>py_func_\<close> in the source). The constructor (lines 71 to 73) stores the
  callable and increments its reference count; it constructs no GIL object. The
  destructor (lines 75 to 78) constructs a \<^verbatim>\<open>gil_scoped_acquire\<close>, decrements the count,
  and the scope ends.
\<close>

record PyCallHandler =
  py_func :: PyObject

definition PyCallHandler_new :: "PyObject \<Rightarrow> 'u Thread \<Rightarrow> PyCallHandler \<times> 'u Thread" where
  "PyCallHandler_new func t =
    (case run (IncRefOp func) (\<lambda>i. ((), Py_INCREF func i)) t of
       (_, t1) \<Rightarrow> (\<lparr>py_func = func\<rparr>, t1))"

definition PyCallHandler_delete :: "PyCallHandler \<Rightarrow> 'u Thread \<Rightarrow> 'u Thread" where
  "PyCallHandler_delete h t =
    (let t1 = gil_scoped_acquire t in
     case run (DecRefOp (py_func h)) (\<lambda>i. ((), Py_DECREF (py_func h) i)) t1 of
       (_, t2) \<Rightarrow> gil_scoped_acquire_end t2)"

text \<open>
  The two decoding loops of \<^verbatim>\<open>Call\<close> (lines 89 to 95 and 97 to 103). Each
  \<^verbatim>\<open>COURIER_ASSIGN_OR_RETURN\<close> leaves the function with the status when the decode
  fails. The positional values fill the tuple in index order; each keyword value is
  stored in the dictionary under its name.
\<close>

fun deserialize_args ::
  "('u, 'l) Externals \<Rightarrow> 'l \<Rightarrow> Payload list \<Rightarrow> 'u Thread \<Rightarrow> (Status + PyObject list) \<times> 'u Thread"
where
  "deserialize_args ext lookup [] t = (Inr [], t)"
| "deserialize_args ext lookup (p # ps) t =
    (case run (DeserializeOp p) (DeserializePyObject ext p lookup) t of
       (Inl st, t1) \<Rightarrow> (Inl st, t1)
     | (Inr py_arg, t1) \<Rightarrow>
         (case deserialize_args ext lookup ps t1 of
            (Inl st, t2) \<Rightarrow> (Inl st, t2)
          | (Inr py_args, t2) \<Rightarrow> (Inr (py_arg # py_args), t2)))"

fun deserialize_kwargs ::
  "('u, 'l) Externals \<Rightarrow> 'l \<Rightarrow> (string \<times> Payload) list \<Rightarrow> (string \<rightharpoonup> PyObject) \<Rightarrow> 'u Thread \<Rightarrow>
   (Status + (string \<rightharpoonup> PyObject)) \<times> 'u Thread"
where
  "deserialize_kwargs ext lookup [] py_kwargs t = (Inr py_kwargs, t)"
| "deserialize_kwargs ext lookup (pair # rest) py_kwargs t =
    (case run (DeserializeOp (snd pair)) (DeserializePyObject ext (snd pair) lookup) t of
       (Inl st, t1) \<Rightarrow> (Inl st, t1)
     | (Inr py_value, t1) \<Rightarrow>
         deserialize_kwargs ext lookup rest (py_kwargs(fst pair \<mapsto> py_value)) t1)"

definition error_prefix :: string where
  "error_prefix = ''Python exception was raised on the server''"

definition error_message :: "string \<Rightarrow> string" where
  "error_message exception = error_prefix @ '':'' @ [CHR 0x0A] @ exception"

definition fallback_message :: string where
  "fallback_message = error_prefix @ '' but the exception message could not be caught.   ''"

text \<open>
  The part of \<^verbatim>\<open>Call\<close> inside the scope of the \<^verbatim>\<open>gil_scoped_acquire\<close> of line 87: lines
  89 to 125. Every \<open>Inl\<close> and \<open>Inr\<close> result is a \<^verbatim>\<open>return\<close> of the source. The status
  code is computed before the text is fetched, as in the source, since the fetch clears
  the pending exception. The log line of line 120 does not bear on the outcome and is
  left out, and so are the reference count changes of the local object pointers, whose
  destructors run before the one of the GIL object.
\<close>

definition Call_locked ::
  "('u, 'l) Externals \<Rightarrow> PyCallHandler \<Rightarrow> CallArguments \<Rightarrow> 'l \<Rightarrow> 'u Thread \<Rightarrow>
   (Status + CallResult) \<times> 'u Thread"
where
  "Call_locked ext self arguments lookup t =
    (case deserialize_args ext lookup (args arguments) t of
       (Inl st, t1) \<Rightarrow> (Inl st, t1)
     | (Inr py_args, t1) \<Rightarrow>
    (case deserialize_kwargs ext lookup (kwargs arguments) Map.empty t1 of
       (Inl st, t2) \<Rightarrow> (Inl st, t2)
     | (Inr py_kwargs, t2) \<Rightarrow>
    (case run (CallOp (py_func self)) (PyObject_Call ext (py_func self) py_args py_kwargs) t2 of
       (Some py_result, t3) \<Rightarrow>
         (case run (SerializeOp py_result) (SerializePyObject ext py_result) t3 of
            (Inl st, t4) \<Rightarrow> (Inl st, t4)
          | (Inr payload, t4) \<Rightarrow> (Inr \<lparr>result = payload\<rparr>, t4))
     | (None, t3) \<Rightarrow>
         (case run ErrorCodeOp (\<lambda>i. (PythonExceptionErrorCode i, i)) t3 of
            (status_code, t4) \<Rightarrow>
         (case run FetchExceptionOp (FetchPendingException ext) t4 of
            (Some exception, t5) \<Rightarrow> (Inl (Status status_code (error_message exception)), t5)
          | (None, t5) \<Rightarrow> (Inl (InternalError fallback_message), t5))))))"

text \<open>
  \<^verbatim>\<open>PyCallHandler::Call\<close> (lines 80 to 126). The lookup is built first; when that fails
  the function returns at line 85, before any GIL object exists. Otherwise the
  \<^verbatim>\<open>gil_scoped_acquire\<close> is constructed, and whichever \<^verbatim>\<open>return\<close> ends the scope, its
  destructor runs before control is back at the caller.
\<close>

definition Call ::
  "('u, 'l) Externals \<Rightarrow> PyCallHandler \<Rightarrow> string \<Rightarrow> CallArguments \<Rightarrow> 'u Thread \<Rightarrow>
   (Status + CallResult) \<times> 'u Thread"
where
  "Call ext self endpoint arguments t =
    (let t0 = emit (Ran CreateTensorLookupOp (gil t)) t in
     case CreateTensorLookup ext arguments of
       Inl st \<Rightarrow> (Inl st, t0)
     | Inr lookup \<Rightarrow>
         (case Call_locked ext self arguments lookup (gil_scoped_acquire t0) of
            (r, t1) \<Rightarrow> (r, gil_scoped_acquire_end t1)))"

section \<open>The router\<close>

text \<open>
  The handler capability: one operation, \<^verbatim>\<open>Call(endpoint, arguments)\<close>, over a state
  \<open>'s\<close> that the handler may read and change. \<open>Call ext self\<close> above is one.
\<close>

type_synonym 's Handler = "string \<Rightarrow> CallArguments \<Rightarrow> 's \<Rightarrow> (Status + CallResult) \<times> 's"

type_synonym 's Router = "string \<rightharpoonup> 's Handler"

text \<open>
  Modelled from the spec: \<^verbatim>\<open>Router::Bind\<close> (\<^verbatim>\<open>courier/router.h\<close> and its implementation
  are not among the sources). It fails with AlreadyExists if the name is already
  registered; on success the registry gains the handler and Ok is returned. The spec
  fixes no message text.
\<close>

definition Bind :: "string \<Rightarrow> 's Handler \<Rightarrow> 's Router \<Rightarrow> Status \<times> 's Router" where
  "Bind name handler r =
    (case r name of
       Some bound \<Rightarrow> (Status kAlreadyExists [], r)
     | None \<Rightarrow> (OkStatus, r(name \<mapsto> handler)))"

text \<open>
  Modelled from the spec: \<^verbatim>\<open>Router::Unbind\<close> (missing with the router). It fails with
  NotFound if the name is not registered; on success the handler is removed from the
  registry.
\<close>

definition Unbind :: "string \<Rightarrow> 's Router \<Rightarrow> Status \<times> 's Router" where
  "Unbind name r =
    (case r name of
       None \<Rightarrow> (Status kNotFound [], r)
     | Some bound \<Rightarrow> (OkStatus, r(name := None)))"

text \<open>
  Modelled from the spec: the router's dispatch (missing with the router). It fails with
  NotFound if the name is unregistered; otherwise it forwards to the bound handler's
  \<^verbatim>\<open>Call\<close> and returns its outcome unchanged. The registry is only read.
\<close>

definition Dispatch ::
  "string \<Rightarrow> CallArguments \<Rightarrow> 's Router \<Rightarrow> 's \<Rightarrow> (Status + CallResult) \<times> 's"
where
  "Dispatch name arguments r s =
    (case r name of
       None \<Rightarrow> (Inl (Status kNotFound []), s)
     | Some handler \<Rightarrow> handler name arguments s)"

section \<open>The module registration\<close>

text \<open>
  \<^verbatim>\<open>PYBIND11_MODULE(router, m)\<close> in \<^verbatim>\<open>courier/python/router.cc\<close>, lines 28 to 35: the
  class \<^verbatim>\<open>Router\<close> is registered with three \<^verbatim>\<open>.def\<close> entries, in this order. Each entry
  has the name seen from the host language, the operation of the router it reaches, and
  its call guard; only \<^verbatim>\<open>Unbind\<close> has one, \<^verbatim>\<open>py::call_guard<py::gil_scoped_release>\<close>.
  \<open>Router_Dispatch\<close> names the router's third operation, so that one can ask whether an
  entry reaches it.
\<close>

datatype RouterMethod = Router_init | Router_Bind | Router_Unbind | Router_Dispatch

datatype CallGuard = NoGuard | GilScopedRelease

record MethodDef =
  def_name :: string
  def_target :: RouterMethod
  def_guard :: CallGuard

definition router_module :: "MethodDef list" where
  "router_module =
    [\<lparr> def_name = ''__init__'', def_target = Router_init, def_guard = NoGuard \<rparr>,
     \<lparr> def_name = ''Bind'', def_target = Router_Bind, def_guard = NoGuard \<rparr>,
     \<lparr> def_name = ''Unbind'', def_target = Router_Unbind, def_guard = GilScopedRelease \<rparr>]"

text \<open>
  A call guard wraps the bound function: the guard object is constructed before the
  function body runs and destroyed after it has returned.
\<close>

definition call_guard ::
  "CallGuard \<Rightarrow> ('u Thread \<Rightarrow> 'r \<times> 'u Thread) \<Rightarrow> 'u Thread \<Rightarrow> 'r \<times> 'u Thread"
where
  "call_guard g body t =
    (case g of
       NoGuard \<Rightarrow> body t
     | GilScopedRelease \<Rightarrow>
         (case gil_scoped_release t of
            (saved, t1) \<Rightarrow>
              (case body t1 of (r, t2) \<Rightarrow> (r, gil_scoped_release_end saved t2))))"

text \<open>
  A method call from the host language: the entry of that name is looked up and its
  function runs under its guard. \<open>impl\<close> gives the body of each operation of the router.
  \<open>None\<close> is the attribute error of the host language: the class has no such method.
\<close>

definition py_call_method ::
  "string \<Rightarrow> (RouterMethod \<Rightarrow> 'u Thread \<Rightarrow> 'r \<times> 'u Thread) \<Rightarrow> 'u Thread \<Rightarrow>
   ('r \<times> 'u Thread) option"
where
  "py_call_method name impl t =
    (case find (\<lambda>d. def_name d = name) router_module of
       None \<Rightarrow> None
     | Some d \<Rightarrow> Some (call_guard (def_guard d) (impl (def_target d)) t))"

definition exposed :: "RouterMethod \<Rightarrow> bool" where
  "exposed m = list_ex (\<lambda>d. def_target d = m) router_module"

section \<open>Reading the event log\<close>

text \<open>The events that one run of \<^verbatim>\<open>Call\<close> appends to the log of its thread.\<close>

definition Call_trace ::
  "('u, 'l) Externals \<Rightarrow> PyCallHandler \<Rightarrow> string \<Rightarrow> CallArguments \<Rightarrow> 'u Thread \<Rightarrow> Event list"
where
  "Call_trace ext self endpoint arguments t =
     drop (length (events t)) (events (snd (Call ext self endpoint arguments t)))"

text \<open>
  The payloads of a call in the order of the two loops: the positional ones by index,
  then the keyword ones as the mapping yields them.
\<close>

definition decode_order :: "CallArguments \<Rightarrow> Payload list" where
  "decode_order arguments = args arguments @ map snd (kwargs arguments)"



fun is_invocation :: "Event \<Rightarrow> bool" where
  "is_invocation (Ran (CallOp f) d) = True"
| "is_invocation e = False"

definition invoked :: "Event list \<Rightarrow> bool" where
  "invoked es = list_ex is_invocation es"

text \<open>
  An event of the exclusive section entered at depth \<open>d\<close>: an operation other than the
  construction of the tensor lookup, run at that depth.
\<close>

fun in_section :: "nat \<Rightarrow> Event \<Rightarrow> bool" where
  "in_section d (Ran CreateTensorLookupOp g) = False"
| "in_section d (Ran op g) = (g = d)"
| "in_section d e = False"

text \<open>An operation ran while its thread held the GIL when its depth is not 0.\<close>

definition gil_held :: "Event \<Rightarrow> bool" where
  "gil_held e = (case e of Ran op d \<Rightarrow> 0 < d | _ \<Rightarrow> True)"

definition decode_events :: "nat \<Rightarrow> Payload list \<Rightarrow> Event list" where
  "decode_events d ps = map (\<lambda>p. Ran (DeserializeOp p) d) ps"

text \<open>
  What the log of \<^verbatim>\<open>Call\<close> can hold after the decodes, once the callable has been
  invoked: the invocation and the serialization of its result, or the invocation, the
  classification of the pending exception and the fetch of its text.
\<close>

definition call_tails :: "PyObject \<Rightarrow> nat \<Rightarrow> Event list set" where
  "call_tails f d =
     {[Ran (CallOp f) d, Ran ErrorCodeOp d, Ran FetchExceptionOp d]} \<union>
     {[Ran (CallOp f) d, Ran (SerializeOp res) d] | res. True}"

section \<open>Example inputs\<close>

text \<open>
  A runtime whose callable always raises a lookup error with the text ``key missing''.
  Its decoder succeeds in an interpreter where \<open>objects\<close> is true and fails otherwise,
  as an unpickler does when the class of the pickled value cannot be imported.
\<close>

definition raising_ext :: "(bool, unit) Externals" where
  "raising_ext =
    \<lparr> CreateTensorLookup = (\<lambda>arguments. Inr ()),
      DeserializePyObject = (\<lambda>p lookup i.
        if objects i then (Inr 1, i) else (Inl (Status kInvalidArgument ''cannot decode''), i)),
      PyObject_Call = (\<lambda>f py_args py_kwargs i. (None, i\<lparr>curexc := Some {PyExc_LookupError}\<rparr>)),
      SerializePyObject = (\<lambda>ob i. (Inr (Object []), i)),
      FetchPendingException = (\<lambda>i. (Some ''key missing'', i\<lparr>curexc := None\<rparr>)) \<rparr>"

text \<open>The same runtime, but the text of the exception cannot be fetched.\<close>

definition textless_ext :: "(bool, unit) Externals" where
  "textless_ext = raising_ext\<lparr> FetchPendingException := (\<lambda>i. (None, i)) \<rparr>"

definition example_thread :: "bool \<Rightarrow> nat \<Rightarrow> bool Thread" where
  "example_thread decodable d =
    \<lparr> gil = d, interp = \<lparr> curexc = None, refcnt = (\<lambda>ob. 1), objects = decodable \<rparr>, events = [] \<rparr>"

definition example_arguments :: CallArguments where
  "example_arguments = \<lparr> args = [Object ''a'', Object ''b''], kwargs = [(''k'', Object ''c'')] \<rparr>"

section \<open>The error mapper is the ordered table\<close>

lemma PythonExceptionErrorCode_not_ok: "PythonExceptionErrorCode i \<noteq> kOk"
  by (simp add: PythonExceptionErrorCode_def)

text \<open>
  C1. The error mapper is a total function of the pending failure alone, and it is the
  first-match reading of the ordered category table: nothing pending gives Unknown,
  then value or type mismatch gives InvalidArgument, iteration exhausted OutOfRange,
  memory exhaustion ResourceExhausted, not implemented Unimplemented, user interrupt
  Aborted, internal or syntax level Internal, lookup failure NotFound, and anything else
  Unknown. So every pending-failure state gets exactly one code, the one of the first
  category it matches, and that code is one of these eight.
\<close>

theorem PythonExceptionErrorCode_first_match:
  "PythonExceptionErrorCode i = error_mapper_spec (curexc i) \<and>
   PythonExceptionErrorCode i \<in>
     {kUnknown, kInvalidArgument, kOutOfRange, kResourceExhausted, kUnimplemented,
      kAborted, kInternal, kNotFound}"
  by (cases "curexc i")
     (simp_all add: PythonExceptionErrorCode_def error_mapper_spec_def category_table_def
        PyErr_Occurred_def PyErr_ExceptionMatches_def)

section \<open>The log of one call\<close>

lemma run_gil:
  "run op f t = (r, t') \<Longrightarrow>
   gil t' = gil t \<and> events t' = events t @ [Ran op (gil t)] \<and> (r, interp t') = f (interp t)"
  by (auto simp: run_def emit_def split: prod.splits)

text \<open>
  Each loop logs one decode per payload it reaches, in list order, and stops at the
  first decode that fails.
\<close>

lemma deserialize_args_events:
  "deserialize_args ext lookup ps t = (r, t') \<Longrightarrow>
   gil t' = gil t \<and>
   (\<exists>k\<le>length ps. events t' = events t @ decode_events (gil t) (take k ps) \<and>
      (isl r \<or> k = length ps))"
proof (induction ps arbitrary: t r t')
  case Nil
  then show ?case by (simp add: decode_events_def)
next
  case (Cons p ps)
  obtain r1 t1 where r1: "run (DeserializeOp p) (DeserializePyObject ext p lookup) t = (r1, t1)"
    by (cases "run (DeserializeOp p) (DeserializePyObject ext p lookup) t")
  from run_gil[OF r1] have g1: "gil t1 = gil t"
    and e1: "events t1 = events t @ [Ran (DeserializeOp p) (gil t)]"
    by simp_all
  show ?case
  proof (cases r1)
    case (Inl st)
    with Cons.prems r1 have "r = Inl st" "t' = t1" by simp_all
    with g1 e1 show ?thesis
      by (auto simp: decode_events_def intro!: exI[of _ 1])
  next
    case (Inr v)
    obtain r2 t2 where r2: "deserialize_args ext lookup ps t1 = (r2, t2)"
      by (cases "deserialize_args ext lookup ps t1")
    from Cons.IH[OF r2] obtain k where k: "k \<le> length ps" "gil t2 = gil t1"
      "events t2 = events t1 @ decode_events (gil t1) (take k ps)" "isl r2 \<or> k = length ps"
      by blast
    from Cons.prems r1 Inr r2 have "t' = t2" "isl r = isl r2"
      by (auto split: sum.splits)
    with k g1 e1 show ?thesis
      by (auto simp: decode_events_def intro!: exI[of _ "Suc k"])
  qed
qed

lemma deserialize_kwargs_events:
  "deserialize_kwargs ext lookup kws acc t = (r, t') \<Longrightarrow>
   gil t' = gil t \<and>
   (\<exists>k\<le>length kws. events t' = events t @ decode_events (gil t) (take k (map snd kws)) \<and>
      (isl r \<or> k = length kws))"
proof (induction kws arbitrary: t r t' acc)
  case Nil
  then show ?case by (simp add: decode_events_def)
next
  case (Cons p ps)
  obtain r1 t1 where
    r1: "run (DeserializeOp (snd p)) (DeserializePyObject ext (snd p) lookup) t = (r1, t1)"
    by (cases "run (DeserializeOp (snd p)) (DeserializePyObject ext (snd p) lookup) t")
  from run_gil[OF r1] have g1: "gil t1 = gil t"
    and e1: "events t1 = events t @ [Ran (DeserializeOp (snd p)) (gil t)]"
    by simp_all
  show ?case
  proof (cases r1)
    case (Inl st)
    with Cons.prems r1 have "r = Inl st" "t' = t1" by simp_all
    with g1 e1 show ?thesis
      by (auto simp: decode_events_def intro!: exI[of _ 1])
  next
    case (Inr v)
    with Cons.prems r1 have r2: "deserialize_kwargs ext lookup ps (acc(fst p \<mapsto> v)) t1 = (r, t')"
      by simp
    from Cons.IH[OF r2] obtain k where k: "k \<le> length ps" "gil t' = gil t1"
      "events t' = events t1 @ decode_events (gil t1) (take k (map snd ps))"
      "isl r \<or> k = length ps"
      by blast
    with g1 e1 show ?thesis
      by (auto simp: decode_events_def intro!: exI[of _ "Suc k"])
  qed
qed

text \<open>
  The body under the GIL keeps the depth and appends the decodes it reached, followed,
  when all of them succeeded, by the invocation and what handles its outcome.
\<close>

lemma Call_locked_events:
  assumes "Call_locked ext self a lookup t = (r, t')"
  shows "gil t' = gil t \<and>
    (\<exists>k tail. k \<le> length (args a @ map snd (kwargs a)) \<and>
       events t' = events t @ decode_events (gil t) (take k (args a @ map snd (kwargs a))) @ tail \<and>
       (tail = [] \<and> isl r \<or>
        k = length (args a @ map snd (kwargs a)) \<and> tail \<in> call_tails (py_func self) (gil t)))"
proof -
  obtain r1 t1 where s1: "deserialize_args ext lookup (args a) t = (r1, t1)"
    by (cases "deserialize_args ext lookup (args a) t")
  from deserialize_args_events[OF s1] obtain k1 where
    k1: "k1 \<le> length (args a)" "gil t1 = gil t"
      "events t1 = events t @ decode_events (gil t) (take k1 (args a))"
      "isl r1 \<or> k1 = length (args a)"
    by blast
  show ?thesis
  proof (cases r1)
    case (Inl st)
    with assms s1 have "r = Inl st" "t' = t1" by (simp_all add: Call_locked_def)
    with k1 show ?thesis
      by (intro conjI exI[of _ k1] exI[of _ "[]"]) simp_all
  next
    case (Inr py_args)
    with k1 have k1_all: "k1 = length (args a)" by simp
    obtain r2 t2 where s2: "deserialize_kwargs ext lookup (kwargs a) Map.empty t1 = (r2, t2)"
      by (cases "deserialize_kwargs ext lookup (kwargs a) Map.empty t1")
    from deserialize_kwargs_events[OF s2] obtain k2 where
      k2: "k2 \<le> length (kwargs a)" "gil t2 = gil t1"
        "events t2 = events t1 @ decode_events (gil t1) (take k2 (map snd (kwargs a)))"
        "isl r2 \<or> k2 = length (kwargs a)"
      by blast
    have e2: "events t2 = events t @
        decode_events (gil t) (take (length (args a) + k2) (args a @ map snd (kwargs a)))"
      using k1 k1_all k2 by (simp add: decode_events_def)
    have g2: "gil t2 = gil t" using k1 k2 by simp
    show ?thesis
    proof (cases r2)
      case (Inl st)
      with assms s1 s2 Inr have "r = Inl st" "t' = t2" by (simp_all add: Call_locked_def)
      with e2 g2 k2 show ?thesis
        by (intro conjI exI[of _ "length (args a) + k2"] exI[of _ "[]"]) simp_all
    next
      case r2: (Inr py_kwargs)
      with k2 have k2_all: "k2 = length (kwargs a)" by simp
      obtain r3 t3 where s3:
        "run (CallOp (py_func self)) (PyObject_Call ext (py_func self) py_args py_kwargs) t2 =
           (r3, t3)"
        by (cases "run (CallOp (py_func self))
            (PyObject_Call ext (py_func self) py_args py_kwargs) t2")
      from run_gil[OF s3] have g3: "gil t3 = gil t"
        and e3: "events t3 = events t2 @ [Ran (CallOp (py_func self)) (gil t)]"
        using g2 by simp_all
      show ?thesis
      proof (cases r3)
        case (Some py_result)
        obtain r4 t4 where
          s4: "run (SerializeOp py_result) (SerializePyObject ext py_result) t3 = (r4, t4)"
          by (cases "run (SerializeOp py_result) (SerializePyObject ext py_result) t3")
        from run_gil[OF s4] have g4: "gil t4 = gil t"
          and e4: "events t4 = events t3 @ [Ran (SerializeOp py_result) (gil t)]"
          using g3 by simp_all
        from assms s1 s2 s3 s4 Inr r2 Some have "t' = t4"
          by (simp add: Call_locked_def split: sum.splits)
        with e2 e3 e4 g4 k2_all show ?thesis
          by (intro conjI exI[of _ "length (args a) + k2"]
                exI[of _ "[Ran (CallOp (py_func self)) (gil t),
                           Ran (SerializeOp py_result) (gil t)]"])
             (simp_all add: call_tails_def)
      next
        case None
        obtain r4 t4 where
          s4: "run ErrorCodeOp (\<lambda>i. (PythonExceptionErrorCode i, i)) t3 = (r4, t4)"
          by (cases "run ErrorCodeOp (\<lambda>i. (PythonExceptionErrorCode i, i)) t3")
        from run_gil[OF s4] have g4: "gil t4 = gil t"
          and e4: "events t4 = events t3 @ [Ran ErrorCodeOp (gil t)]"
          using g3 by simp_all
        obtain r5 t5 where s5: "run FetchExceptionOp (FetchPendingException ext) t4 = (r5, t5)"
          by (cases "run FetchExceptionOp (FetchPendingException ext) t4")
        from run_gil[OF s5] have g5: "gil t5 = gil t"
          and e5: "events t5 = events t4 @ [Ran FetchExceptionOp (gil t)]"
          using g4 by simp_all
        from assms s1 s2 s3 s4 s5 Inr r2 None have "t' = t5"
          by (simp add: Call_locked_def split: option.splits)
        with e2 e3 e4 e5 g5 k2_all show ?thesis
          by (intro conjI exI[of _ "length (args a) + k2"]
                exI[of _ "[Ran (CallOp (py_func self)) (gil t), Ran ErrorCodeOp (gil t),
                           Ran FetchExceptionOp (gil t)]"])
             (simp_all add: call_tails_def)
      qed
    qed
  qed
qed

text \<open>The whole log of one run of \<^verbatim>\<open>Call\<close>, and the GIL depth after it.\<close>

lemma Call_trace_shape:
  "gil (snd (Call ext self ep a t)) = gil t \<and>
   events (snd (Call ext self ep a t)) = events t @ Call_trace ext self ep a t \<and>
   (case CreateTensorLookup ext a of
      Inl st \<Rightarrow> fst (Call ext self ep a t) = Inl st \<and>
                Call_trace ext self ep a t = [Ran CreateTensorLookupOp (gil t)]
    | Inr lookup \<Rightarrow>
        (\<exists>k tail. k \<le> length (decode_order a) \<and>
           Call_trace ext self ep a t =
             [Ran CreateTensorLookupOp (gil t), GilAcquire] @
             decode_events (Suc (gil t)) (take k (decode_order a)) @ tail @ [GilRelease] \<and>
           (tail = [] \<and> isl (fst (Call ext self ep a t)) \<or>
            k = length (decode_order a) \<and> tail \<in> call_tails (py_func self) (Suc (gil t)))))"
proof (cases "CreateTensorLookup ext a")
  case (Inl st)
  then show ?thesis
    by (simp add: Call_def Call_trace_def emit_def)
next
  case (Inr lookup)
  define t0 where "t0 = gil_scoped_acquire (emit (Ran CreateTensorLookupOp (gil t)) t)"
  have g0: "gil t0 = Suc (gil t)"
    and e0: "events t0 = events t @ [Ran CreateTensorLookupOp (gil t), GilAcquire]"
    by (simp_all add: t0_def gil_scoped_acquire_def emit_def)
  obtain r t1 where body: "Call_locked ext self a lookup t0 = (r, t1)"
    by (cases "Call_locked ext self a lookup t0")
  have call: "Call ext self ep a t = (r, gil_scoped_acquire_end t1)"
    using Inr body by (simp add: Call_def t0_def)
  from Call_locked_events[OF body] g0 obtain k tail where
    k: "k \<le> length (args a @ map snd (kwargs a))" and g1: "gil t1 = Suc (gil t)" and
    e1: "events t1 = events t0 @
           decode_events (Suc (gil t)) (take k (args a @ map snd (kwargs a))) @ tail" and
    tl: "tail = [] \<and> isl r \<or>
         k = length (args a @ map snd (kwargs a)) \<and>
         tail \<in> call_tails (py_func self) (Suc (gil t))"
    by auto
  have ev: "events (snd (Call ext self ep a t)) = events t @
      ([Ran CreateTensorLookupOp (gil t), GilAcquire] @
       decode_events (Suc (gil t)) (take k (decode_order a)) @ tail @ [GilRelease])"
    using e0 e1 by (simp add: call gil_scoped_acquire_end_def emit_def decode_order_def)
  then have tr: "Call_trace ext self ep a t =
      [Ran CreateTensorLookupOp (gil t), GilAcquire] @
      decode_events (Suc (gil t)) (take k (decode_order a)) @ tail @ [GilRelease]"
    by (simp add: Call_trace_def)
  have "gil (snd (Call ext self ep a t)) = gil t"
    using g1 by (simp add: call gil_scoped_acquire_end_def emit_def)
  moreover have "events (snd (Call ext self ep a t)) = events t @ Call_trace ext self ep a t"
    using ev tr by simp
  moreover have "\<exists>k tail. k \<le> length (decode_order a) \<and>
           Call_trace ext self ep a t =
             [Ran CreateTensorLookupOp (gil t), GilAcquire] @
             decode_events (Suc (gil t)) (take k (decode_order a)) @ tail @ [GilRelease] \<and>
           (tail = [] \<and> isl (fst (Call ext self ep a t)) \<or>
            k = length (decode_order a) \<and> tail \<in> call_tails (py_func self) (Suc (gil t)))"
    using k tr tl by (intro exI[of _ k] exI[of _ tail]) (simp add: call decode_order_def)
  ultimately show ?thesis using Inr by simp
qed

lemma in_section_decode_events: "list_all (in_section d) (decode_events d ps)"
  by (induction ps) (simp_all add: decode_events_def)

lemma in_section_call_tails: "tail \<in> call_tails f d \<Longrightarrow> list_all (in_section d) tail"
  by (auto simp: call_tails_def)














lemmas example_defs =
  Call_trace_def Call_def Call_locked_def run_def emit_def gil_scoped_acquire_def
  gil_scoped_acquire_end_def raising_ext_def textless_ext_def example_thread_def
  example_arguments_def decode_order_def invoked_def

section \<open>The exclusive section of Call\<close>

text \<open>
  C2. In \<^verbatim>\<open>Call\<close> the tensor lookup is built before the GIL is acquired: its event is
  the first of the run, at the depth the caller came with, and its function has no
  access to the interpreter state. When the lookup fails, that is the whole run and no
  GIL object was ever constructed. Otherwise the run goes on with the acquisition and
  ends with the release, and everything between them, the decodes, the invocation, the
  handling of its result or of its error, ran one level deeper. On every exit path the
  depth after \<^verbatim>\<open>Call\<close> is the depth before it, and the release is the last event, so it
  precedes the return.
\<close>

theorem Call_gil_scope:
  "gil (snd (Call ext self ep a t)) = gil t \<and>
   events (snd (Call ext self ep a t)) = events t @ Call_trace ext self ep a t \<and>
   (case CreateTensorLookup ext a of
      Inl st \<Rightarrow> Call_trace ext self ep a t = [Ran CreateTensorLookupOp (gil t)]
    | Inr lookup \<Rightarrow>
        (\<exists>inner. Call_trace ext self ep a t =
                   [Ran CreateTensorLookupOp (gil t), GilAcquire] @ inner @ [GilRelease] \<and>
                 list_all (in_section (Suc (gil t))) inner))"
proof (cases "CreateTensorLookup ext a")
  case (Inl st)
  with Call_trace_shape[of ext self ep a t] show ?thesis by simp
next
  case (Inr lookup)
  with Call_trace_shape[of ext self ep a t] obtain k tail where
    g: "gil (snd (Call ext self ep a t)) = gil t" and
    ev: "events (snd (Call ext self ep a t)) = events t @ Call_trace ext self ep a t" and
    tr: "Call_trace ext self ep a t =
             [Ran CreateTensorLookupOp (gil t), GilAcquire] @
             (decode_events (Suc (gil t)) (take k (decode_order a)) @ tail) @ [GilRelease]" and
    tl: "tail = [] \<or> tail \<in> call_tails (py_func self) (Suc (gil t))"
    by auto
  have "list_all (in_section (Suc (gil t))) tail"
    using tl in_section_call_tails by auto
  then have "list_all (in_section (Suc (gil t)))
      (decode_events (Suc (gil t)) (take k (decode_order a)) @ tail)"
    by (simp add: in_section_decode_events)
  with tr have "\<exists>inner. Call_trace ext self ep a t =
                   [Ran CreateTensorLookupOp (gil t), GilAcquire] @ inner @ [GilRelease] \<and>
                 list_all (in_section (Suc (gil t))) inner"
    by blast
  with g ev Inr show ?thesis by simp
qed

section \<open>The lifetime of the callable reference\<close>

text \<open>
  C3, as the code has it. The reference to the callable is acquired at construction and
  released at destruction. The destructor takes the GIL itself: the decrement runs one
  level deeper than the caller came with, between an acquisition and a release. The
  constructor takes nothing: the increment runs at the depth of its caller, so it holds
  exclusive access exactly when the caller does.
\<close>

theorem PyCallHandler_lifetime:
  "(case PyCallHandler_new f t of
      (h, t') \<Rightarrow>
        py_func h = f \<and> gil t' = gil t \<and>
        events t' = events t @ [Ran (IncRefOp f) (gil t)] \<and>
        refcnt (interp t') f = Suc (refcnt (interp t) f)) \<and>
   (let t' = PyCallHandler_delete h t in
      gil t' = gil t \<and>
      events t' = events t @ [GilAcquire, Ran (DecRefOp (py_func h)) (Suc (gil t)), GilRelease] \<and>
      refcnt (interp t') (py_func h) = refcnt (interp t) (py_func h) - 1)"
  by (simp add: PyCallHandler_new_def PyCallHandler_delete_def run_def emit_def
        gil_scoped_acquire_def gil_scoped_acquire_end_def Py_INCREF_def Py_DECREF_def)

text \<open>
  C3 as stated fails: a handler constructed by a thread that does not hold the GIL
  increments the count without it.
\<close>

theorem PyCallHandler_new_without_gil:
  "\<not> list_all gil_held (events (snd (PyCallHandler_new 5 (example_thread True 0))))"
  by (simp add: PyCallHandler_new_def run_def emit_def example_thread_def gil_held_def)

section \<open>The order of the decodes\<close>




section \<open>The outcome of a failed invocation\<close>

text \<open>
  C5. When both loops have decoded their arguments, the callable has failed (the call
  returned the null pointer) and the text of the exception cannot be fetched,
  \<^verbatim>\<open>Call\<close> returns the status Internal with the fixed fallback message, whatever the
  pending exception was classified as.
\<close>

theorem Call_text_unavailable:
  assumes "CreateTensorLookup ext a = Inr lookup"
    and "deserialize_args ext lookup (args a)
           (gil_scoped_acquire (emit (Ran CreateTensorLookupOp (gil t)) t)) = (Inr py_args, t1)"
    and "deserialize_kwargs ext lookup (kwargs a) Map.empty t1 = (Inr py_kwargs, t2)"
    and "PyObject_Call ext (py_func self) py_args py_kwargs (interp t2) = (None, i3)"
    and "FetchPendingException ext i3 = (None, i4)"
  shows "fst (Call ext self ep a t) = Inl (Status kInternal fallback_message)"
  using assms by (simp add: Call_def Call_locked_def run_def emit_def InternalError_def)

text \<open>
  The callable raises a lookup error, which the mapper classifies as NotFound; the text
  cannot be fetched, and the status is Internal.
\<close>

theorem Call_text_unavailable_witness:
  "fst (Call textless_ext \<lparr>py_func = 5\<rparr> ''fail'' example_arguments (example_thread True 0)) =
     Inl (Status kInternal fallback_message) \<and>
   PythonExceptionErrorCode
     (interp (snd (Call textless_ext \<lparr>py_func = 5\<rparr> ''fail'' example_arguments
        (example_thread True 0)))) = kNotFound"
proof -
  let ?start = "example_thread True 0"
  let ?enter = "gil_scoped_acquire (emit (Ran CreateTensorLookupOp (gil ?start)) ?start)"
  let ?r1 = "deserialize_args textless_ext () (args example_arguments) ?enter"
  let ?r2 = "deserialize_kwargs textless_ext () (kwargs example_arguments) Map.empty (snd ?r1)"
  let ?i3 = "(interp (snd ?r2))\<lparr>curexc := Some {PyExc_LookupError}\<rparr>"
  have h1: "CreateTensorLookup textless_ext example_arguments = Inr ()"
    by (simp add: example_defs)
  have h2: "?r1 = (Inr [1, 1], snd ?r1)"
    by (simp add: example_defs)
  have h3: "?r2 = (Inr [''k'' \<mapsto> 1], snd ?r2)"
    by (simp add: example_defs)
  have h4: "PyObject_Call textless_ext (py_func \<lparr>py_func = 5\<rparr>) [1, 1] [''k'' \<mapsto> 1]
              (interp (snd ?r2)) = (None, ?i3)"
    by (simp add: example_defs)
  have h5: "FetchPendingException textless_ext ?i3 = (None, ?i3)"
    by (simp add: example_defs)
  have "PythonExceptionErrorCode
     (interp (snd (Call textless_ext \<lparr>py_func = 5\<rparr> ''fail'' example_arguments ?start))) =
     kNotFound"
    by (simp add: example_defs PythonExceptionErrorCode_def PyErr_Occurred_def
          PyErr_ExceptionMatches_def)
  with Call_text_unavailable[OF h1 h2 h3 h4 h5, of "''fail''"] show ?thesis
    by simp
qed

text \<open>
  C6. \<^verbatim>\<open>Call\<close> returns one value that is either a status or a call result, never both
  and never neither. When both loops have decoded their arguments and the callable has
  failed, the value is a status whose code is not Ok; and when the text of the exception
  can be fetched, that status carries the code the mapper gave to the pending exception
  and a message that contains the text.
\<close>

theorem Call_failure_surfaced:
  "((\<exists>st. fst (Call ext self ep a t) = Inl st) \<noteq>
    (\<exists>res. fst (Call ext self ep a t) = Inr res)) \<and>
   (CreateTensorLookup ext a = Inr lookup \<and>
    deserialize_args ext lookup (args a)
      (gil_scoped_acquire (emit (Ran CreateTensorLookupOp (gil t)) t)) = (Inr py_args, t1) \<and>
    deserialize_kwargs ext lookup (kwargs a) Map.empty t1 = (Inr py_kwargs, t2) \<and>
    PyObject_Call ext (py_func self) py_args py_kwargs (interp t2) = (None, i3) \<longrightarrow>
    (\<exists>st. fst (Call ext self ep a t) = Inl st \<and> code st \<noteq> kOk \<and>
       (\<forall>exception i4. FetchPendingException ext i3 = (Some exception, i4) \<longrightarrow>
          st = Status (PythonExceptionErrorCode i3) (error_message exception) \<and>
          sublist exception (message st))))"
proof (intro conjI impI)
  show "(\<exists>st. fst (Call ext self ep a t) = Inl st) \<noteq>
        (\<exists>res. fst (Call ext self ep a t) = Inr res)"
    by (cases "fst (Call ext self ep a t)") simp_all
next
  assume h: "CreateTensorLookup ext a = Inr lookup \<and>
    deserialize_args ext lookup (args a)
      (gil_scoped_acquire (emit (Ran CreateTensorLookupOp (gil t)) t)) = (Inr py_args, t1) \<and>
    deserialize_kwargs ext lookup (kwargs a) Map.empty t1 = (Inr py_kwargs, t2) \<and>
    PyObject_Call ext (py_func self) py_args py_kwargs (interp t2) = (None, i3)"
  obtain msg i4 where f: "FetchPendingException ext i3 = (msg, i4)"
    by (cases "FetchPendingException ext i3")
  show "\<exists>st. fst (Call ext self ep a t) = Inl st \<and> code st \<noteq> kOk \<and>
       (\<forall>exception i4. FetchPendingException ext i3 = (Some exception, i4) \<longrightarrow>
          st = Status (PythonExceptionErrorCode i3) (error_message exception) \<and>
          sublist exception (message st))"
  proof (cases msg)
    case None
    with h f have "fst (Call ext self ep a t) = Inl (Status kInternal fallback_message)"
      by (simp add: Call_def Call_locked_def run_def emit_def InternalError_def)
    with f None show ?thesis by simp
  next
    case (Some exception)
    with h f have "fst (Call ext self ep a t) =
        Inl (Status (PythonExceptionErrorCode i3) (error_message exception))"
      by (simp add: Call_def Call_locked_def run_def emit_def)
    moreover have "sublist exception (error_message exception)"
      unfolding error_message_def sublist_def by (metis append.assoc append_Nil2)
    ultimately show ?thesis
      using f Some by (simp add: PythonExceptionErrorCode_not_ok)
  qed
qed

text \<open>
  The callable raises a lookup error with the text ``key missing'': the status is
  NotFound and its message contains the text.
\<close>

theorem Call_failure_surfaced_witness:
  "fst (Call raising_ext \<lparr>py_func = 5\<rparr> ''fail'' example_arguments (example_thread True 0)) =
     Inl (Status kNotFound (error_message ''key missing'')) \<and>
   sublist ''key missing'' (error_message ''key missing'')"
proof -
  let ?start = "example_thread True 0"
  let ?enter = "gil_scoped_acquire (emit (Ran CreateTensorLookupOp (gil ?start)) ?start)"
  let ?r1 = "deserialize_args raising_ext () (args example_arguments) ?enter"
  let ?r2 = "deserialize_kwargs raising_ext () (kwargs example_arguments) Map.empty (snd ?r1)"
  let ?i3 = "(interp (snd ?r2))\<lparr>curexc := Some {PyExc_LookupError}\<rparr>"
  have h: "CreateTensorLookup raising_ext example_arguments = Inr () \<and>
     ?r1 = (Inr [1, 1], snd ?r1) \<and> ?r2 = (Inr [''k'' \<mapsto> 1], snd ?r2) \<and>
     PyObject_Call raising_ext (py_func \<lparr>py_func = 5\<rparr>) [1, 1] [''k'' \<mapsto> 1]
              (interp (snd ?r2)) = (None, ?i3)"
    by (simp add: example_defs)
  have f: "FetchPendingException raising_ext ?i3 = (Some ''key missing'', ?i3\<lparr>curexc := None\<rparr>)"
    by (simp add: example_defs)
  have c: "PythonExceptionErrorCode ?i3 = kNotFound"
    by (simp add: PythonExceptionErrorCode_def PyErr_Occurred_def PyErr_ExceptionMatches_def)
  from Call_failure_surfaced[of raising_ext "\<lparr>py_func = 5\<rparr>" "''fail''" example_arguments
      ?start "()" "[1, 1]" "snd ?r1" "[''k'' \<mapsto> 1]" "snd ?r2" ?i3] h
  obtain st where
    st: "fst (Call raising_ext \<lparr>py_func = 5\<rparr> ''fail'' example_arguments ?start) = Inl st" and
    tx: "\<forall>exception i4. FetchPendingException raising_ext ?i3 = (Some exception, i4) \<longrightarrow>
          st = Status (PythonExceptionErrorCode ?i3) (error_message exception) \<and>
          sublist exception (message st)"
    by blast
  from tx f have "st = Status (PythonExceptionErrorCode ?i3) (error_message ''key missing'') \<and>
      sublist ''key missing'' (message st)"
    by blast
  with st c show ?thesis by auto
qed

section \<open>The router\<close>

text \<open>
  C7. Binding a name that is already registered returns AlreadyExists and leaves the
  registry as it was, with the original handler still bound to the name. Binding a name
  that is not registered returns Ok and the registry holds the handler under the name;
  a second bind of the same name then returns AlreadyExists and the first handler stays.
\<close>

theorem Bind_twice:
  "(r n = Some h \<longrightarrow>
      code (fst (Bind n g r)) = kAlreadyExists \<and> snd (Bind n g r) = r \<and>
      snd (Bind n g r) n = Some h) \<and>
   (r n = None \<longrightarrow>
      Bind n h r = (OkStatus, r(n \<mapsto> h)) \<and>
      code (fst (Bind n g (snd (Bind n h r)))) = kAlreadyExists \<and>
      snd (Bind n g (snd (Bind n h r))) n = Some h)"
  by (simp add: Bind_def)

theorem Bind_twice_witness:
  "(Map.empty :: bool Thread Router) ''add'' = None \<and>
   fst (Bind ''add'' (Call raising_ext \<lparr>py_func = 5\<rparr>) (Map.empty :: bool Thread Router)) =
     OkStatus \<and>
   code (fst (Bind ''add'' (Call textless_ext \<lparr>py_func = 6\<rparr>)
     (snd (Bind ''add'' (Call raising_ext \<lparr>py_func = 5\<rparr>) Map.empty)))) = kAlreadyExists \<and>
   snd (Bind ''add'' (Call textless_ext \<lparr>py_func = 6\<rparr>)
     (snd (Bind ''add'' (Call raising_ext \<lparr>py_func = 5\<rparr>) Map.empty))) ''add'' =
     Some (Call raising_ext \<lparr>py_func = 5\<rparr>) \<and>
   [''add'' \<mapsto> Call raising_ext \<lparr>py_func = 5\<rparr>] ''add'' =
     Some (Call raising_ext \<lparr>py_func = 5\<rparr>) \<and>
   snd (Bind ''add'' (Call textless_ext \<lparr>py_func = 6\<rparr>)
     [''add'' \<mapsto> Call raising_ext \<lparr>py_func = 5\<rparr>]) =
     [''add'' \<mapsto> Call raising_ext \<lparr>py_func = 5\<rparr>]"
  using Bind_twice[where r = Map.empty and n = "''add''"
      and h = "Call raising_ext \<lparr>py_func = 5\<rparr>" and g = "Call textless_ext \<lparr>py_func = 6\<rparr>"]
    Bind_twice[where r = "[''add'' \<mapsto> Call raising_ext \<lparr>py_func = 5\<rparr>]" and n = "''add''"
      and h = "Call raising_ext \<lparr>py_func = 5\<rparr>" and g = "Call textless_ext \<lparr>py_func = 6\<rparr>"]
  by simp

text \<open>
  C8. Dispatch on a name that is not registered returns NotFound and leaves the state
  that handlers act on untouched: no handler ran. Dispatch only reads the registry, so
  it cannot change it. On a registered name the outcome is that of the bound handler's
  \<^verbatim>\<open>Call\<close> on the same name and arguments, unchanged.
\<close>

theorem Dispatch_outcome:
  "(r n = None \<longrightarrow> (\<exists>st. Dispatch n a r s = (Inl st, s) \<and> code st = kNotFound)) \<and>
   (r n = Some h \<longrightarrow> Dispatch n a r s = h n a s)"
  by (simp add: Dispatch_def)

theorem Dispatch_outcome_witness:
  "Dispatch ''add'' example_arguments Map.empty (example_thread True 0) =
     (Inl (Status kNotFound []), example_thread True 0) \<and>
   Dispatch ''fail'' example_arguments [''fail'' \<mapsto> Call raising_ext \<lparr>py_func = 5\<rparr>]
     (example_thread True 0) =
     Call raising_ext \<lparr>py_func = 5\<rparr> ''fail'' example_arguments (example_thread True 0)"
  using Dispatch_outcome[where r = Map.empty and n = "''add''" and a = example_arguments
      and s = "example_thread True 0"]
    Dispatch_outcome[where r = "[''fail'' \<mapsto> Call raising_ext \<lparr>py_func = 5\<rparr>]"
      and n = "''fail''" and a = example_arguments and s = "example_thread True 0"
      and h = "Call raising_ext \<lparr>py_func = 5\<rparr>"]
  by (auto simp: Dispatch_def)

section \<open>The module registration\<close>

text \<open>
  C9, as the code has it. The registration exposes the constructor, Bind and Unbind, and
  nothing else: no entry reaches the dispatch operation, and a call of a method named
  Dispatch finds no method.
\<close>

theorem router_module_methods:
  "map def_name router_module = [''__init__'', ''Bind'', ''Unbind''] \<and>
   exposed Router_Bind \<and> exposed Router_Unbind \<and> \<not> exposed Router_Dispatch \<and>
   py_call_method ''Dispatch'' impl t = None"
  by (simp add: router_module_def exposed_def py_call_method_def)

text \<open>C9 as stated fails: the three operations are not all exposed.\<close>

theorem router_module_lacks_Dispatch:
  "\<not> (exposed Router_Bind \<and> exposed Router_Unbind \<and> exposed Router_Dispatch)"
  by (simp add: router_module_def exposed_def)

text \<open>
  C10. Through the binding, the body of Unbind runs in a thread that has given up the
  GIL, whatever depth it held, and the depth is restored after the body has returned;
  the body of Bind runs in the thread as it is, nothing released. When the body of
  Unbind destroys a handler, the destructor therefore acquires a GIL that its own thread
  does not hold: the decrement runs at depth 1, and all is given back in order.
\<close>

theorem Unbind_releases_gil:
  "py_call_method ''Unbind'' impl t =
     Some (case impl Router_Unbind (emit GilSuspend (t\<lparr>gil := 0\<rparr>)) of
             (r, t2) \<Rightarrow> (r, emit GilResume (t2\<lparr>gil := gil t\<rparr>))) \<and>
   py_call_method ''Bind'' impl t = Some (impl Router_Bind t) \<and>
   (case py_call_method ''Unbind'' (\<lambda>m t1. ((), PyCallHandler_delete h t1)) t of
      None \<Rightarrow> False
    | Some (r, t') \<Rightarrow>
        gil t' = gil t \<and>
        events t' = events t @
          [GilSuspend, GilAcquire, Ran (DecRefOp (py_func h)) 1, GilRelease, GilResume])"
  by (simp add: py_call_method_def router_module_def call_guard_def gil_scoped_release_def
        gil_scoped_release_end_def emit_def PyCallHandler_delete_def run_def
        gil_scoped_acquire_def gil_scoped_acquire_end_def)

end
